theory Spec2Isabelle
  imports Complex_Main "HOL-Library.AList"
begin

section \<open>The parsed configuration document\<close>

text \<open>
  \<^verbatim>\<open>load_configs\<close> opens the file and hands back what \<^verbatim>\<open>yaml.safe_load\<close> built. The file
  system and the parser are outside \<^verbatim>\<open>yaml_utils.py\<close>; every loader below therefore takes
  the parsed document \<open>configs\<close> in place of the path.

  A parsed YAML value is a scalar, a sequence or a mapping. A Python \<^verbatim>\<open>dict\<close> keeps its
  items in insertion order, so a mapping is the list of its items; looking a key up is
  \<open>map_of\<close>. All the keys that \<^verbatim>\<open>yaml_utils.py\<close> asks for are strings, and a key of another
  type never equals a string, so only string keys are kept. Python's \<^verbatim>\<open>None\<close> is \<open>YNull\<close>.
  Numbers are integers or reals: \<^verbatim>\<open>float64\<close> rounding, infinities and NaN are not part of
  this model.
\<close>

datatype yaml =
    YNull
  | YBool bool
  | YInt int
  | YFloat real
  | YStr string
  | YSeq "yaml list"
  | YMap "(string \<times> yaml) list"

text \<open>
  The exceptions of Python that the loaders can raise. \<open>OutsideModel\<close> is no exception of
  Python: it marks an input on which NumPy or SciPy alone decide what happens (a cell that is
  not a number, a nested or a scalar array) and which this development does not follow.
\<close>

datatype error = KeyError | ValueError | TypeError | IndexError | AttributeError | OutsideModel

definition then_do :: "error + 'a \<Rightarrow> ('a \<Rightarrow> error + 'b) \<Rightarrow> error + 'b" where
  "then_do r f = (case r of Inl e \<Rightarrow> Inl e | Inr v \<Rightarrow> f v)"

subsection \<open>Python's operations on a parsed value\<close>

text \<open>\<^verbatim>\<open>k in s\<close> for two strings: \<open>k\<close> occurs in \<open>s\<close> as a contiguous piece.\<close>

fun substring :: "string \<Rightarrow> string \<Rightarrow> bool" where
  "substring k [] = (k = [])"
| "substring k (c # s) = (take (length k) (c # s) = k \<or> substring k s)"

text \<open>
  \<^verbatim>\<open>key in obj\<close> with a string \<open>key\<close>: membership among the keys of a dict, among the
  elements of a list, as a substring of a string; \<^verbatim>\<open>TypeError\<close> on a value that is not
  iterable.
\<close>

fun contains :: "string \<Rightarrow> yaml \<Rightarrow> error + bool" where
  "contains k (YMap m) = Inr (map_of m k \<noteq> None)"
| "contains k (YSeq xs) = Inr (YStr k \<in> set xs)"
| "contains k (YStr s) = Inr (substring k s)"
| "contains k _ = Inl TypeError"

text \<open>
  \<^verbatim>\<open>obj[key]\<close> with a string \<open>key\<close>: the value of a dict or \<^verbatim>\<open>KeyError\<close>; \<^verbatim>\<open>TypeError\<close> on
  everything else (a list and a string want an integer index, the other scalars are not
  subscriptable).
\<close>

fun subscript :: "yaml \<Rightarrow> string \<Rightarrow> error + yaml" where
  "subscript (YMap m) k = (case map_of m k of None \<Rightarrow> Inl KeyError | Some v \<Rightarrow> Inr v)"
| "subscript _ k = Inl TypeError"

text \<open>\<^verbatim>\<open>obj.get(key, default)\<close>: only a dict has the method.\<close>

fun py_get :: "yaml \<Rightarrow> string \<Rightarrow> yaml \<Rightarrow> error + yaml" where
  "py_get (YMap m) k d = Inr (case map_of m k of None \<Rightarrow> d | Some v \<Rightarrow> v)"
| "py_get _ k d = Inl AttributeError"

section \<open>\<^verbatim>\<open>load_ros_topic_names\<close>\<close>

text \<open>
  \<^verbatim>\<open>
  topics = configs.get('topics', {})
  image_topic = topics.get('image')
  tf_topic = topics.get('tf')
  event_topic = topics.get('event')
  return {'image': image_topic, 'tf': tf_topic, 'event': event_topic}
  \<close>
\<close>

definition load_ros_topic_names :: "yaml \<Rightarrow> error + (string \<times> yaml) list" where
  "load_ros_topic_names configs =
     then_do (py_get configs ''topics'' (YMap [])) (\<lambda>topics.
     then_do (py_get topics ''image'' YNull) (\<lambda>image_topic.
     then_do (py_get topics ''tf'' YNull) (\<lambda>tf_topic.
     then_do (py_get topics ''event'' YNull) (\<lambda>event_topic.
       Inr [(''image'', image_topic), (''tf'', tf_topic), (''event'', event_topic)]))))"

section \<open>\<^verbatim>\<open>load_parameters_from_yaml\<close>\<close>

text \<open>
  The loop
  \<^verbatim>\<open>
  for key in keys:
      if key in configs: parameters[key] = configs[key]
      else:              parameters[key] = None
  \<close>
  with the dict \<open>parameters\<close> as accumulator. Storing under a key that is already there
  replaces the value and keeps the item's place, which is \<open>AList.update\<close>.
\<close>

fun extract_parameters ::
  "yaml \<Rightarrow> string list \<Rightarrow> (string \<times> yaml) list \<Rightarrow> error + (string \<times> yaml) list" where
  "extract_parameters configs [] parameters = Inr parameters"
| "extract_parameters configs (key # keys) parameters =
     then_do (contains key configs) (\<lambda>present.
       if present
       then then_do (subscript configs key) (\<lambda>v.
              extract_parameters configs keys (AList.update key v parameters))
       else extract_parameters configs keys (AList.update key YNull parameters))"

text \<open>
  \<^verbatim>\<open>
  if len(parameters.values()) == 1: return list(parameters.values())[0]
  else:                             return parameters
  \<close>
  Python hands back either the value or the dict, untagged; so does the model.
\<close>

definition load_parameters_from_yaml :: "yaml \<Rightarrow> string list \<Rightarrow> error + yaml" where
  "load_parameters_from_yaml configs keys =
     then_do (extract_parameters configs keys []) (\<lambda>parameters.
       if length (map snd parameters) = 1
       then Inr (hd (map snd parameters))
       else Inr (YMap parameters))"

section \<open>Numeric arrays\<close>

text \<open>
  Modelled from the spec: NumPy and SciPy are libraries, not code of \<^verbatim>\<open>yaml_utils.py\<close>. The
  spec asks for numeric fields, a 3x3 camera matrix, a distortion vector of five numbers, a
  position of three numbers and a quaternion of four. An array is the list of its numbers
  (a matrix the list of its rows); a cell is a number when it is a YAML integer, a YAML float
  or a boolean (which NumPy reads as 1 or 0).
\<close>

fun num_of :: "yaml \<Rightarrow> real option" where
  "num_of (YInt i) = Some (of_int i)"
| "num_of (YFloat r) = Some r"
| "num_of (YBool b) = Some (if b then 1 else 0)"
| "num_of _ = None"

text \<open>\<^verbatim>\<open>np.array([c1, ..., cn])\<close> on a Python list of cells.\<close>

definition np_array_1d :: "yaml list \<Rightarrow> error + real list" where
  "np_array_1d cells =
     (if list_all (\<lambda>c. num_of c \<noteq> None) cells then Inr (map (\<lambda>c. the (num_of c)) cells)
      else Inl OutsideModel)"

text \<open>\<^verbatim>\<open>np.array([[...], [...], [...]])\<close> on a Python list of rows.\<close>

definition np_array_2d :: "yaml list list \<Rightarrow> error + real list list" where
  "np_array_2d rows =
     (if list_all (list_all (\<lambda>c. num_of c \<noteq> None)) rows
      then Inr (map (map (\<lambda>c. the (num_of c))) rows)
      else Inl OutsideModel)"

text \<open>\<^verbatim>\<open>np.array(obj)\<close> on a parsed value: followed on a flat sequence only.\<close>

fun np_array :: "yaml \<Rightarrow> error + real list" where
  "np_array (YSeq cells) = np_array_1d cells"
| "np_array _ = Inl OutsideModel"

section \<open>\<^verbatim>\<open>load_camera_intrinsics\<close>\<close>

text \<open>\<^verbatim>\<open>configs[a][b]\<close>, as every line of the function reads its field.\<close>

definition lookup2 :: "yaml \<Rightarrow> string \<Rightarrow> string \<Rightarrow> error + yaml" where
  "lookup2 configs a b = then_do (subscript configs a) (\<lambda>inner. subscript inner b)"

text \<open>
  The eleven reads in the order of the source, the two arrays, and the returned triple
  \<^verbatim>\<open>(camera_matrix, distortion_coefficients, (image_height, image_width))\<close>.
\<close>

definition load_camera_intrinsics ::
  "yaml \<Rightarrow> error + (real list list \<times> real list \<times> (yaml \<times> yaml))" where
  "load_camera_intrinsics configs =
     then_do (lookup2 configs ''camera'' ''fx'') (\<lambda>fx.
     then_do (lookup2 configs ''camera'' ''fy'') (\<lambda>fy.
     then_do (lookup2 configs ''camera'' ''cx'') (\<lambda>cx.
     then_do (lookup2 configs ''camera'' ''cy'') (\<lambda>cy.
     then_do (lookup2 configs ''camera'' ''k1'') (\<lambda>k1.
     then_do (lookup2 configs ''camera'' ''k2'') (\<lambda>k2.
     then_do (lookup2 configs ''camera'' ''k3'') (\<lambda>k3.
     then_do (lookup2 configs ''camera'' ''p1'') (\<lambda>p1.
     then_do (lookup2 configs ''camera'' ''p2'') (\<lambda>p2.
     then_do (lookup2 configs ''camera'' ''image_width'') (\<lambda>image_width.
     then_do (lookup2 configs ''camera'' ''image_height'') (\<lambda>image_height.
     then_do (np_array_2d [[fx, YInt 0, cx],
                           [YInt 0, fy, cy],
                           [YInt 0, YInt 0, YInt 1]]) (\<lambda>camera_matrix.
     then_do (np_array_1d [k1, k2, p1, p2, k3]) (\<lambda>distortion_coefficients.
       Inr (camera_matrix, distortion_coefficients, (image_height, image_width)))))))))))))))"

section \<open>\<^verbatim>\<open>load_transformation\<close>\<close>

text \<open>
  \<^verbatim>\<open>quaternion[0], quaternion[-1] = quaternion[-1], quaternion[0]\<close>: the right-hand side is
  read first (two numbers, not views), then index 0 and the last index are written. On an
  empty array the read raises \<^verbatim>\<open>IndexError\<close>.
\<close>

definition swap_first_last :: "real list \<Rightarrow> error + real list" where
  "swap_first_last quaternion =
     (if quaternion = [] then Inl IndexError
      else Inr ((quaternion[0 := last quaternion])[length quaternion - 1 := hd quaternion]))"

text \<open>
  Modelled from the spec: \<^verbatim>\<open>Rotation.from_quat\<close> of SciPy takes a quaternion in scalar-last
  order \<open>[x, y, z, w]\<close>, refuses an array that has not four components and a quaternion of
  norm zero, and keeps the quaternion divided by its norm.
\<close>

definition from_quat :: "real list \<Rightarrow> error + real list" where
  "from_quat quat =
     (if length quat \<noteq> 4 then Inl ValueError
      else let norm = sqrt ((quat ! 0)\<^sup>2 + (quat ! 1)\<^sup>2 + (quat ! 2)\<^sup>2 + (quat ! 3)\<^sup>2)
           in if norm = 0 then Inl ValueError else Inr (map (\<lambda>c. c / norm) quat))"

text \<open>
  Modelled from the spec: \<^verbatim>\<open>as_matrix\<close> is the standard formula that takes the unit
  quaternion \<open>[x, y, z, w]\<close> to its 3x3 rotation matrix.
\<close>

fun as_matrix :: "real list \<Rightarrow> real list list" where
  "as_matrix [x, y, z, w] =
     [[x * x - y * y - z * z + w * w, 2 * (x * y - z * w), 2 * (x * z + y * w)],
      [2 * (x * y + z * w), - (x * x) + y * y - z * z + w * w, 2 * (y * z - x * w)],
      [2 * (x * z - y * w), 2 * (y * z + x * w), - (x * x) - y * y + z * z + w * w]]"
| "as_matrix _ = []"

text \<open>\<^verbatim>\<open>np.eye(4)\<close>.\<close>

definition eye4 :: "real list list" where
  "eye4 = [[1, 0, 0, 0], [0, 1, 0, 0], [0, 0, 1, 0], [0, 0, 0, 1]]"

text \<open>
  \<^verbatim>\<open>transformation_matrix[:3, :3] = rotation\<close>: the first three cells of the first three rows
  are replaced; \<open>rotation\<close> comes from \<open>as_matrix\<close> and has that shape.
\<close>

definition assign_rotation :: "real list list \<Rightarrow> real list list \<Rightarrow> real list list" where
  "assign_rotation M rotation =
     map2 (\<lambda>r row. r @ drop 3 row) rotation (take 3 M) @ drop 3 M"

text \<open>
  \<^verbatim>\<open>transformation_matrix[:3, 3] = position\<close>: the fourth cell of the first three rows is
  replaced. NumPy takes three numbers as they are, repeats a single number three times, and
  raises \<^verbatim>\<open>ValueError\<close> on any other length.
\<close>

definition assign_position :: "real list list \<Rightarrow> real list \<Rightarrow> error + real list list" where
  "assign_position M position =
     (if length position = 3
      then Inr (map2 (\<lambda>row v. row[3 := v]) (take 3 M) position @ drop 3 M)
      else if length position = 1
      then Inr (map (\<lambda>row. row[3 := hd position]) (take 3 M) @ drop 3 M)
      else Inl ValueError)"

text \<open>
  The function itself: the two presence checks (the second with Python's short-circuit
  \<^verbatim>\<open>or\<close>), the two arrays, the swap, the rotation, the assembly.
\<close>

definition load_transformation :: "yaml \<Rightarrow> string \<Rightarrow> error + real list list" where
  "load_transformation configs key =
     then_do (contains key configs) (\<lambda>key_present.
     if \<not> key_present then Inl KeyError else
     then_do (subscript configs key) (\<lambda>entry.
     then_do (contains ''Position'' entry) (\<lambda>has_position.
     if \<not> has_position then Inl ValueError else
     then_do (subscript configs key) (\<lambda>entry.
     then_do (contains ''Rotation'' entry) (\<lambda>has_rotation.
     if \<not> has_rotation then Inl ValueError else
     then_do (lookup2 configs key ''Position'') (\<lambda>position_value.
     then_do (np_array position_value) (\<lambda>position.
     then_do (lookup2 configs key ''Rotation'') (\<lambda>rotation_value.
     then_do (np_array rotation_value) (\<lambda>quaternion.
     then_do (swap_first_last quaternion) (\<lambda>quaternion.
     then_do (from_quat quaternion) (\<lambda>unit_quaternion.
       assign_position (assign_rotation eye4 (as_matrix unit_quaternion)) position)))))))))))"

text \<open>
  Lines 150 and 153 of the source on their own: the rotation matrix that the function builds
  from the array of the stored quaternion (the swap, then SciPy's conversion).
\<close>

definition rotation_built :: "real list \<Rightarrow> error + real list list" where
  "rotation_built quaternion =
     then_do (swap_first_last quaternion) (\<lambda>quaternion.
     then_do (from_quat quaternion) (\<lambda>unit_quaternion.
       Inr (as_matrix unit_quaternion)))"

text \<open>Reading a 4x4 matrix: its rotation block, its translation column, its bottom row.\<close>

definition rotation_block :: "real list list \<Rightarrow> real list list" where
  "rotation_block M = map (take 3) (take 3 M)"

definition translation_column :: "real list list \<Rightarrow> real list" where
  "translation_column M = map (\<lambda>row. row ! 3) (take 3 M)"

definition bottom_row :: "real list list \<Rightarrow> real list" where
  "bottom_row M = M ! 3"

section \<open>Vocabulary of the statements\<close>

text \<open>
  The fields that \<^verbatim>\<open>load_camera_intrinsics\<close> reads, in the order of the source, and those
  among them that go into an array.
\<close>

definition camera_fields :: "string list" where
  "camera_fields = [''fx'', ''fy'', ''cx'', ''cy'', ''k1'', ''k2'', ''k3'', ''p1'', ''p2'',
                    ''image_width'', ''image_height'']"

definition array_fields :: "string list" where
  "array_fields = [''fx'', ''fy'', ''cx'', ''cy'', ''k1'', ''k2'', ''k3'', ''p1'', ''p2'']"

text \<open>The number stored under a field of a mapping, when there is one.\<close>

definition field_num :: "(string \<times> yaml) list \<Rightarrow> string \<Rightarrow> real option" where
  "field_num c f = (case map_of c f of None \<Rightarrow> None | Some v \<Rightarrow> num_of v)"

text \<open>
  The original rotation, in the spec's words: the document stores the quaternion scalar
  first, as \<open>[qw, qx, qy, qz]\<close>, and the rotation it stands for is the one that the
  conversion gives on the scalar-last \<open>[qx, qy, qz, qw]\<close>. A matrix determines its rotation,
  and a quaternion read back from a matrix stands for the rotation of that matrix; so the
  round trip gives back the original rotation exactly when the matrix built is this one.
\<close>

fun spec_rotation :: "real list \<Rightarrow> error + real list list" where
  "spec_rotation [qw, qx, qy, qz] =
     then_do (from_quat [qx, qy, qz, qw]) (\<lambda>unit_quaternion. Inr (as_matrix unit_quaternion))"
| "spec_rotation _ = Inl ValueError"

text \<open>
  Two documents for the examples: a camera block with eleven different values, so that no
  two fields can be confused, and one that stops after the focal lengths. A third holds
  four transform entries: the identity of the spec's example, a half turn about the x axis
  (in scalar-first order \<open>w = 0\<close>, \<open>x = 1\<close>), an entry with a position only, and an
  empty entry.
\<close>

definition camera_block :: "(string \<times> yaml) list" where
  "camera_block =
     [(''fx'', YFloat 525), (''fy'', YFloat 526), (''cx'', YFloat 319), (''cy'', YFloat 239),
      (''k1'', YInt 1), (''k2'', YInt 2), (''k3'', YInt 3), (''p1'', YInt 4), (''p2'', YInt 5),
      (''image_width'', YInt 640), (''image_height'', YInt 480)]"

definition short_camera_block :: "(string \<times> yaml) list" where
  "short_camera_block = [(''fx'', YFloat 525), (''fy'', YFloat 526)]"

definition transforms :: "(string \<times> yaml) list" where
  "transforms =
     [(''T_identity'', YMap [(''Position'', YSeq [YInt 1, YInt 2, YInt 3]),
                            (''Rotation'', YSeq [YInt 1, YInt 0, YInt 0, YInt 0])]),
      (''T_half_turn_x'', YMap [(''Position'', YSeq [YInt 0, YInt 0, YInt 0]),
                               (''Rotation'', YSeq [YInt 0, YInt 1, YInt 0, YInt 0])]),
      (''T_position_only'', YMap [(''Position'', YSeq [YInt 1, YInt 2, YInt 3])]),
      (''T_empty'', YMap [])]"

section \<open>Sequencing and lookups\<close>

lemma then_do_Inl: "then_do (Inl e) f = Inl e"
  by (simp add: then_do_def)

lemma then_do_Inr: "then_do (Inr v) f = f v"
  by (simp add: then_do_def)

lemma then_do_eq_Inr: "then_do r f = Inr y \<longleftrightarrow> (\<exists>v. r = Inr v \<and> f v = Inr y)"
  by (cases r) (simp_all add: then_do_def)

lemma lookup2_dict:
  "map_of m a = Some (YMap c) \<Longrightarrow>
   lookup2 (YMap m) a b = (case map_of c b of None \<Rightarrow> Inl KeyError | Some v \<Rightarrow> Inr v)"
  by (simp add: lookup2_def then_do_def)

lemma lookup2_absent: "map_of m a = None \<Longrightarrow> lookup2 (YMap m) a b = Inl KeyError"
  by (simp add: lookup2_def then_do_def)

lemma field_numD:
  "field_num c f = Some x \<Longrightarrow> \<exists>v. map_of c f = Some v \<and> num_of v = Some x"
  by (simp add: field_num_def split: option.splits)

section \<open>Topic names\<close>

text \<open>
  Claim C6. On a document that is a mapping, \<open>load_ros_topic_names\<close> does not fail on
  missing topic fields: without a \<open>topics\<close> key all three fields are \<open>None\<close>; with a
  \<open>topics\<close> mapping each field is its value there, or \<open>None\<close> when the sub-key is missing.
  Whatever the document, a returned dict has exactly the keys \<open>image\<close>, \<open>tf\<close>, \<open>event\<close>.
\<close>

theorem load_ros_topic_names_fields:
  "(map_of m ''topics'' = None \<longrightarrow>
      load_ros_topic_names (YMap m) =
        Inr [(''image'', YNull), (''tf'', YNull), (''event'', YNull)]) \<and>
   (map_of m ''topics'' = Some (YMap t) \<longrightarrow>
      load_ros_topic_names (YMap m) =
        Inr [(''image'', case map_of t ''image'' of None \<Rightarrow> YNull | Some v \<Rightarrow> v),
             (''tf'', case map_of t ''tf'' of None \<Rightarrow> YNull | Some v \<Rightarrow> v),
             (''event'', case map_of t ''event'' of None \<Rightarrow> YNull | Some v \<Rightarrow> v)]) \<and>
   (load_ros_topic_names configs = Inr r \<longrightarrow> map fst r = [''image'', ''tf'', ''event''])"
  by (auto simp: load_ros_topic_names_def then_do_eq_Inr then_do_Inr)

text \<open>The document of the spec's example, with \<open>topics.image\<close> alone, and an empty one.\<close>

theorem load_ros_topic_names_fields_witness:
  "map_of [(''rate'', YInt 30)] ''topics'' = None \<and>
   load_ros_topic_names (YMap [(''rate'', YInt 30)]) =
     Inr [(''image'', YNull), (''tf'', YNull), (''event'', YNull)] \<and>
   map_of [(''topics'', YMap [(''image'', YStr ''/camera/image_raw'')])] ''topics'' =
     Some (YMap [(''image'', YStr ''/camera/image_raw'')]) \<and>
   load_ros_topic_names (YMap [(''topics'', YMap [(''image'', YStr ''/camera/image_raw'')])]) =
     Inr [(''image'', YStr ''/camera/image_raw''), (''tf'', YNull), (''event'', YNull)] \<and>
   map fst [(''image'', YNull), (''tf'', YNull), (''event'', YNull)] =
     [''image'', ''tf'', ''event'']"
  using load_ros_topic_names_fields
          [of "[(''rate'', YInt 30)]" "[]" "YMap [(''rate'', YInt 30)]"
              "[(''image'', YNull), (''tf'', YNull), (''event'', YNull)]"]
        load_ros_topic_names_fields
          [of "[(''topics'', YMap [(''image'', YStr ''/camera/image_raw'')])]"
              "[(''image'', YStr ''/camera/image_raw'')]" "YNull" "[]"]
  by simp

section \<open>Generic parameters\<close>

lemma extract_parameters_dict:
  "extract_parameters (YMap m) keys ps =
     Inr (fold (\<lambda>k. AList.update k (case map_of m k of None \<Rightarrow> YNull | Some v \<Rightarrow> v)) keys ps)"
  by (induction keys arbitrary: ps) (auto simp: then_do_def split: option.splits)

lemma fold_update_keys:
  "fst ` set (fold (\<lambda>k. AList.update k (f k)) keys ps) = set keys \<union> fst ` set ps"
  by (induction keys arbitrary: ps) (auto simp: dom_update)

lemma fold_update_distinct:
  "distinct (map fst ps) \<Longrightarrow> distinct (map fst (fold (\<lambda>k. AList.update k (f k)) keys ps))"
  by (induction keys arbitrary: ps) (auto simp: distinct_update)

lemma fold_update_lookup:
  "map_of (fold (\<lambda>k. AList.update k (f k)) keys ps) k =
     (if k \<in> set keys then Some (f k) else map_of ps k)"
  by (induction keys arbitrary: ps) (auto simp: update_conv')

lemma fold_update_length:
  "length (fold (\<lambda>k. AList.update k (f k)) keys []) = card (set keys)"
proof -
  let ?ps = "fold (\<lambda>k. AList.update k (f k)) keys []"
  have "distinct (map fst ?ps)"
    by (rule fold_update_distinct) simp
  then have "card (set (map fst ?ps)) = length (map fst ?ps)"
    by (rule distinct_card)
  moreover have "set (map fst ?ps) = set keys"
    using fold_update_keys [of f keys "[]"] by simp
  ultimately show ?thesis by simp
qed

text \<open>
  Claim C2, as the spec has it, fails: the test of the source is on the number of items of
  the dict it built, not on the number of keys it was given. A request that names one key
  twice is a request of two keys and comes back bare.
\<close>

theorem load_parameters_repeated_key_bare:
  "length [''a'', ''a''] \<noteq> 1 \<and>
   load_parameters_from_yaml (YMap [(''a'', YInt 1)]) [''a'', ''a''] = Inr (YInt 1) \<and>
   load_parameters_from_yaml (YMap [(''a'', YInt 1)]) [''a'', ''a''] \<noteq>
     Inr (YMap [(''a'', YInt 1)])"
  by (simp add: load_parameters_from_yaml_def then_do_def)

text \<open>
  Claim C2, amended. On a document that is a mapping, \<open>load_parameters_from_yaml\<close> returns
  the bare value when the requested keys are one distinct key (however often it is
  repeated), and otherwise the dict whose keys are exactly the requested ones; in both cases
  a key that the document does not have stands for \<open>None\<close>, and nothing is raised.
\<close>

theorem load_parameters_distinct_keys:
  "(card (set keys) = 1 \<longrightarrow>
      load_parameters_from_yaml (YMap m) keys =
        Inr (case map_of m (hd keys) of None \<Rightarrow> YNull | Some v \<Rightarrow> v)) \<and>
   (card (set keys) \<noteq> 1 \<longrightarrow>
      (\<exists>ps. load_parameters_from_yaml (YMap m) keys = Inr (YMap ps) \<and>
            distinct (map fst ps) \<and> fst ` set ps = set keys \<and>
            (\<forall>k \<in> set keys. map_of ps k =
               Some (case map_of m k of None \<Rightarrow> YNull | Some v \<Rightarrow> v))))"
proof -
  let ?f = "\<lambda>k. case map_of m k of None \<Rightarrow> YNull | Some v \<Rightarrow> v"
  let ?ps = "fold (\<lambda>k. AList.update k (?f k)) keys []"
  have len: "length ?ps = card (set keys)"
    by (rule fold_update_length)
  have keys: "fst ` set ?ps = set keys"
    using fold_update_keys [of ?f keys "[]"] by simp
  have dist: "distinct (map fst ?ps)"
    by (rule fold_update_distinct) simp
  have look: "\<forall>k \<in> set keys. map_of ?ps k = Some (?f k)"
    by (simp add: fold_update_lookup)
  have one: "hd (map snd ?ps) = ?f (hd keys)" if c: "card (set keys) = 1"
  proof -
    from c len obtain p where p: "?ps = [p]"
      by (cases ?ps) auto
    from c have "keys \<noteq> []" by auto
    then have "hd keys \<in> set keys" by simp
    with look have "map_of ?ps (hd keys) = Some (?f (hd keys))" by blast
    with p show ?thesis
      by (cases p) (auto split: if_splits)
  qed
  show ?thesis
    using len keys dist look one
    by (auto simp: load_parameters_from_yaml_def extract_parameters_dict then_do_def)
qed

text \<open>The two calls of the spec's example, and a key the document lacks.\<close>

theorem load_parameters_distinct_keys_witness:
  "card (set [''a'']) = 1 \<and>
   load_parameters_from_yaml (YMap [(''a'', YInt 1), (''b'', YStr ''x'')]) [''a''] =
     Inr (YInt 1) \<and>
   card (set [''a'', ''c'']) \<noteq> 1 \<and>
   (\<exists>ps. load_parameters_from_yaml (YMap [(''a'', YInt 1), (''b'', YStr ''x'')])
           [''a'', ''c''] = Inr (YMap ps) \<and>
         distinct (map fst ps) \<and> fst ` set ps = {''a'', ''c''} \<and>
         map_of ps ''a'' = Some (YInt 1) \<and> map_of ps ''c'' = Some YNull)"
  using load_parameters_distinct_keys [of "[''a'']" "[(''a'', YInt 1), (''b'', YStr ''x'')]"]
        load_parameters_distinct_keys
          [of "[''a'', ''c'']" "[(''a'', YInt 1), (''b'', YStr ''x'')]"]
  by simp

section \<open>Camera intrinsics\<close>

text \<open>
  Claim C5. For a well-formed camera block (the nine coefficients numbers, the two image
  dimensions present), \<open>load_camera_intrinsics\<close> returns the matrix
  \<open>[[fx, 0, cx], [0, fy, cy], [0, 0, 1]]\<close>, the distortion vector \<open>[k1, k2, p1, p2, k3]\<close> and
  the image size \<open>(image_height, image_width)\<close>.
\<close>

theorem load_camera_intrinsics_layout:
  assumes "map_of m ''camera'' = Some (YMap c)"
    and "field_num c ''fx'' = Some fx" and "field_num c ''fy'' = Some fy"
    and "field_num c ''cx'' = Some cx" and "field_num c ''cy'' = Some cy"
    and "field_num c ''k1'' = Some k1" and "field_num c ''k2'' = Some k2"
    and "field_num c ''k3'' = Some k3" and "field_num c ''p1'' = Some p1"
    and "field_num c ''p2'' = Some p2"
    and "map_of c ''image_width'' = Some image_width"
    and "map_of c ''image_height'' = Some image_height"
  shows "load_camera_intrinsics (YMap m) =
           Inr ([[fx, 0, cx],
                 [0, fy, cy],
                 [0, 0, 1]],
                [k1, k2, p1, p2, k3],
                (image_height, image_width))"
  using assms(2-10) [THEN field_numD] assms(11,12)
  by (clarsimp simp: load_camera_intrinsics_def lookup2_dict [OF assms(1)] then_do_Inr
        np_array_2d_def np_array_1d_def)

text \<open>The full camera block.\<close>

theorem load_camera_intrinsics_layout_witness:
  "load_camera_intrinsics (YMap [(''camera'', YMap camera_block)]) =
     Inr ([[525, 0, 319],
           [0, 526, 239],
           [0, 0, 1]],
          [1, 2, 4, 5, 3],
          (YInt 480, YInt 640))"
  by (rule load_camera_intrinsics_layout [where c = camera_block])
     (simp_all add: camera_block_def field_num_def)

lemma camera_missing_field:
  assumes cam: "map_of m ''camera'' = Some (YMap c)"
    and "\<exists>f \<in> set camera_fields. map_of c f = None"
  shows "load_camera_intrinsics (YMap m) = Inl KeyError"
proof -
  from assms(2) consider
      "map_of c ''fx'' = None" | "map_of c ''fy'' = None" | "map_of c ''cx'' = None"
    | "map_of c ''cy'' = None" | "map_of c ''k1'' = None" | "map_of c ''k2'' = None"
    | "map_of c ''k3'' = None" | "map_of c ''p1'' = None" | "map_of c ''p2'' = None"
    | "map_of c ''image_width'' = None" | "map_of c ''image_height'' = None"
    unfolding camera_fields_def by auto
  then show ?thesis
    unfolding load_camera_intrinsics_def
    by cases
      (simp_all add: lookup2_dict [OF cam] then_do_Inl then_do_Inr split: option.splits)
qed

lemma camera_all_fields:
  assumes cam: "map_of m ''camera'' = Some (YMap c)"
    and "\<forall>f \<in> set array_fields. \<forall>v. map_of c f = Some v \<longrightarrow> num_of v \<noteq> None"
    and "\<forall>f \<in> set camera_fields. map_of c f \<noteq> None"
  shows "\<exists>r. load_camera_intrinsics (YMap m) = Inr r"
  using assms(2,3) unfolding load_camera_intrinsics_def camera_fields_def array_fields_def
  by (clarsimp simp: lookup2_dict [OF cam] then_do_Inl then_do_Inr
        np_array_2d_def np_array_1d_def)

text \<open>
  Claim C7. On a document that is a mapping, \<open>load_camera_intrinsics\<close> fails with
  \<open>KeyError\<close> when the document has no \<open>camera\<close> key, and when the \<open>camera\<close> mapping lacks
  any of the eleven fields. When the coefficients that are present are numbers, it returns
  exactly when all eleven fields are present.
\<close>

theorem load_camera_intrinsics_required_fields:
  "(map_of m ''camera'' = None \<longrightarrow> load_camera_intrinsics (YMap m) = Inl KeyError) \<and>
   (map_of m ''camera'' = Some (YMap c) \<longrightarrow>
      ((\<exists>f \<in> set camera_fields. map_of c f = None) \<longrightarrow>
         load_camera_intrinsics (YMap m) = Inl KeyError) \<and>
      ((\<forall>f \<in> set array_fields. \<forall>v. map_of c f = Some v \<longrightarrow> num_of v \<noteq> None) \<longrightarrow>
         ((\<exists>r. load_camera_intrinsics (YMap m) = Inr r) \<longleftrightarrow>
          (\<forall>f \<in> set camera_fields. map_of c f \<noteq> None))))"
proof (intro conjI impI)
  assume "map_of m ''camera'' = None"
  then show "load_camera_intrinsics (YMap m) = Inl KeyError"
    by (simp add: load_camera_intrinsics_def lookup2_absent then_do_Inl)
next
  assume "map_of m ''camera'' = Some (YMap c)"
    and "\<exists>f \<in> set camera_fields. map_of c f = None"
  then show "load_camera_intrinsics (YMap m) = Inl KeyError"
    by (rule camera_missing_field)
next
  assume cam: "map_of m ''camera'' = Some (YMap c)"
    and num: "\<forall>f \<in> set array_fields. \<forall>v. map_of c f = Some v \<longrightarrow> num_of v \<noteq> None"
  show "(\<exists>r. load_camera_intrinsics (YMap m) = Inr r) \<longleftrightarrow>
        (\<forall>f \<in> set camera_fields. map_of c f \<noteq> None)"
  proof
    assume "\<exists>r. load_camera_intrinsics (YMap m) = Inr r"
    then show "\<forall>f \<in> set camera_fields. map_of c f \<noteq> None"
      using camera_missing_field [OF cam] by fastforce
  next
    assume "\<forall>f \<in> set camera_fields. map_of c f \<noteq> None"
    with cam num show "\<exists>r. load_camera_intrinsics (YMap m) = Inr r"
      by (rule camera_all_fields)
  qed
qed

text \<open>No \<open>camera\<close> key, a block that lacks nine fields, and the full block.\<close>

theorem load_camera_intrinsics_required_fields_witness:
  "map_of [(''topics'', YMap [])] ''camera'' = None \<and>
   load_camera_intrinsics (YMap [(''topics'', YMap [])]) = Inl KeyError \<and>
   (\<exists>f \<in> set camera_fields. map_of short_camera_block f = None) \<and>
   load_camera_intrinsics (YMap [(''camera'', YMap short_camera_block)]) = Inl KeyError \<and>
   list_all (\<lambda>f. field_num camera_block f \<noteq> None) array_fields \<and>
   list_all (\<lambda>f. map_of camera_block f \<noteq> None) camera_fields \<and>
   (\<exists>r. load_camera_intrinsics (YMap [(''camera'', YMap camera_block)]) = Inr r)"
proof -
  have short: "\<exists>f \<in> set camera_fields. map_of short_camera_block f = None"
    by (simp add: camera_fields_def short_camera_block_def)
  have num: "\<forall>f \<in> set array_fields. \<forall>v. map_of camera_block f = Some v \<longrightarrow> num_of v \<noteq> None"
    by (simp add: array_fields_def camera_block_def)
  have full: "\<forall>f \<in> set camera_fields. map_of camera_block f \<noteq> None"
    by (simp add: camera_fields_def camera_block_def)
  have "list_all (\<lambda>f. field_num camera_block f \<noteq> None) array_fields"
    and "list_all (\<lambda>f. map_of camera_block f \<noteq> None) camera_fields"
    by (simp_all add: array_fields_def camera_fields_def camera_block_def field_num_def)
  then show ?thesis
    using short num full
      load_camera_intrinsics_required_fields [of "[(''topics'', YMap [])]" "[]"]
      load_camera_intrinsics_required_fields
        [of "[(''camera'', YMap short_camera_block)]" short_camera_block]
      load_camera_intrinsics_required_fields
        [of "[(''camera'', YMap camera_block)]" camera_block]
    by simp
qed

section \<open>Transforms\<close>

lemma from_quat_Inr: "from_quat q = Inr u \<Longrightarrow> \<exists>x y z w. u = [x, y, z, w]"
proof -
  assume "from_quat q = Inr u"
  then have "length u = 4"
    by (auto simp: from_quat_def Let_def split: if_splits)
  then show ?thesis
    by (auto simp: length_Suc_conv numeral_eq_Suc)
qed

lemma assign_rotation_eye4:
  "assign_rotation eye4 [[a, b, c], [d, e, f], [g, h, i]] =
     [[a, b, c, 0], [d, e, f, 0], [g, h, i, 0], [0, 0, 0, 1]]"
  by (simp add: assign_rotation_def eye4_def)

lemma assign_position_three:
  "assign_position [r0, r1, r2, r3] [u, v, w] = Inr [r0[3 := u], r1[3 := v], r2[3 := w], r3]"
  by (simp add: assign_position_def)

lemma assign_position_one:
  "assign_position [r0, r1, r2, r3] [u] = Inr [r0[3 := u], r1[3 := u], r2[3 := u], r3]"
  by (simp add: assign_position_def)

lemma assign_position_Inr_length:
  "assign_position M p = Inr M' \<Longrightarrow> length p = 3 \<or> length p = 1"
  by (auto simp: assign_position_def split: if_splits)

lemma assemble_Inr:
  assumes "assign_position (assign_rotation eye4 [[a, b, c], [d, e, f], [g, h, i]]) p = Inr M"
  shows "length M = 4 \<and> (\<forall>row \<in> set M. length row = 4) \<and>
         rotation_block M = [[a, b, c], [d, e, f], [g, h, i]] \<and>
         (length p = 3 \<longrightarrow> translation_column M = p) \<and>
         bottom_row M = [0, 0, 0, 1]"
proof -
  from assms have "length p = 3 \<or> length p = 1"
    by (rule assign_position_Inr_length)
  then show ?thesis
  proof
    assume "length p = 3"
    then obtain u v w where p: "p = [u, v, w]"
      by (auto simp: length_Suc_conv numeral_eq_Suc)
    from assms have "M = [[a, b, c, u], [d, e, f, v], [g, h, i, w], [0, 0, 0, 1]]"
      by (simp add: p assign_rotation_eye4 assign_position_three)
    then show ?thesis
      by (simp add: p rotation_block_def translation_column_def bottom_row_def)
  next
    assume "length p = 1"
    then obtain u where p: "p = [u]"
      by (auto simp: length_Suc_conv)
    from assms have "M = [[a, b, c, u], [d, e, f, u], [g, h, i, u], [0, 0, 0, 1]]"
      by (simp add: p assign_rotation_eye4 assign_position_one)
    then show ?thesis
      by (simp add: p rotation_block_def translation_column_def bottom_row_def)
  qed
qed

text \<open>
  Claim C1. The source swaps the first and the last component, and its comment announces
  the form \<open>[qx, qy, qz, qw]\<close>. From the scalar-first \<open>[w, x, y, z]\<close> the swap gives
  \<open>[z, x, y, w]\<close>, which is not the scalar-last \<open>[x, y, z, w]\<close>: the three vector components
  stay rotated by one place. On the half turn about the x axis (\<open>w = 0\<close>, \<open>x = 1\<close>) the
  function returns the half turn about the y axis, where the scalar-last quaternion
  \<open>[1, 0, 0, 0]\<close> would have given the rotation block \<open>diag(1, -1, -1)\<close>.
\<close>

theorem swap_first_last_not_scalar_last:
  "swap_first_last [w, x, y, z] = Inr [z, x, y, w] \<and>
   swap_first_last [1, 2, 3, 4] \<noteq> Inr [2, 3, 4, 1] \<and>
   load_transformation (YMap transforms) ''T_half_turn_x'' =
     Inr [[-1, 0, 0, 0],
          [0, 1, 0, 0],
          [0, 0, -1, 0],
          [0, 0, 0, 1]] \<and>
   then_do (from_quat [1, 0, 0, 0]) (\<lambda>unit. Inr (as_matrix unit)) =
     Inr [[1, 0, 0],
          [0, -1, 0],
          [0, 0, -1]]"
  by (simp add: swap_first_last_def load_transformation_def transforms_def lookup2_def
        then_do_def np_array_1d_def from_quat_def assign_rotation_eye4 assign_position_three)

text \<open>
  Claim C3. On a document that is a mapping, \<open>load_transformation\<close> fails with \<open>KeyError\<close>
  when the key is absent, and with \<open>ValueError\<close> when the entry at the key is a mapping that
  has neither \<open>Position\<close> nor \<open>Rotation\<close>; a failure is a left value, so no matrix is
  returned.
\<close>

theorem load_transformation_errors:
  "(map_of m key = None \<longrightarrow> load_transformation (YMap m) key = Inl KeyError) \<and>
   (map_of m key = Some (YMap e) \<and> map_of e ''Position'' = None \<and> map_of e ''Rotation'' = None
      \<longrightarrow> load_transformation (YMap m) key = Inl ValueError)"
  by (simp add: load_transformation_def then_do_Inr)

text \<open>A key that the document lacks, and the entry that is an empty mapping.\<close>

theorem load_transformation_errors_witness:
  "map_of transforms ''T_lidar'' = None \<and>
   load_transformation (YMap transforms) ''T_lidar'' = Inl KeyError \<and>
   map_of transforms ''T_empty'' = Some (YMap []) \<and>
   map_of [] ''Position'' = (None :: yaml option) \<and>
   map_of [] ''Rotation'' = (None :: yaml option) \<and>
   load_transformation (YMap transforms) ''T_empty'' = Inl ValueError"
proof -
  have absent: "map_of transforms ''T_lidar'' = None"
    by (simp add: transforms_def)
  have empty: "map_of transforms ''T_empty'' = Some (YMap [])"
    by (simp add: transforms_def)
  show ?thesis
    using absent empty
      load_transformation_errors [of transforms "''T_lidar''" "[]"]
      load_transformation_errors [of transforms "''T_empty''" "[]"]
    by simp
qed

text \<open>
  Claim C10. The check of the source is a disjunction: an entry that is a mapping and lacks
  \<open>Position\<close> or lacks \<open>Rotation\<close> already raises \<open>ValueError\<close>.
\<close>

theorem load_transformation_either_field_missing:
  assumes "map_of m key = Some (YMap e)"
    and "map_of e ''Position'' = None \<or> map_of e ''Rotation'' = None"
  shows "load_transformation (YMap m) key = Inl ValueError"
  using assms
  by (auto simp: load_transformation_def then_do_Inr)

text \<open>The entry that has a position and no rotation.\<close>

theorem load_transformation_either_field_missing_witness:
  "map_of transforms ''T_position_only'' =
     Some (YMap [(''Position'', YSeq [YInt 1, YInt 2, YInt 3])]) \<and>
   map_of [(''Position'', YSeq [YInt 1, YInt 2, YInt 3])] ''Position'' \<noteq> None \<and>
   map_of [(''Position'', YSeq [YInt 1, YInt 2, YInt 3])] ''Rotation'' = None \<and>
   load_transformation (YMap transforms) ''T_position_only'' = Inl ValueError"
proof -
  have entry: "map_of transforms ''T_position_only'' =
                 Some (YMap [(''Position'', YSeq [YInt 1, YInt 2, YInt 3])])"
    by (simp add: transforms_def)
  have lacks: "map_of [(''Position'', YSeq [YInt 1, YInt 2, YInt 3])] ''Position'' = None \<or>
               map_of [(''Position'', YSeq [YInt 1, YInt 2, YInt 3])] ''Rotation'' = None"
    by simp
  show ?thesis
    using entry load_transformation_either_field_missing [OF entry lacks]
    by simp
qed

text \<open>
  Claim C4. When the entry's position is the array \<open>[1, 2, 3]\<close> and its rotation the array
  \<open>[1, 0, 0, 0]\<close> (the identity, scalar first), \<open>load_transformation\<close> returns the 4x4 matrix
  with the identity as rotation block and \<open>[1, 2, 3]\<close> as translation column.
\<close>

theorem load_transformation_identity:
  assumes "map_of m key = Some (YMap e)"
    and "map_of e ''Position'' = Some position_value"
    and "np_array position_value = Inr [1, 2, 3]"
    and "map_of e ''Rotation'' = Some rotation_value"
    and "np_array rotation_value = Inr [1, 0, 0, 0]"
  shows "load_transformation (YMap m) key =
           Inr [[1, 0, 0, 1],
                [0, 1, 0, 2],
                [0, 0, 1, 3],
                [0, 0, 0, 1]]"
  using assms
  by (simp add: load_transformation_def lookup2_dict then_do_Inr swap_first_last_def
        from_quat_def assign_rotation_eye4 assign_position_three)

text \<open>The entry of the spec's example, written with YAML integers.\<close>

theorem load_transformation_identity_witness:
  "load_transformation (YMap transforms) ''T_identity'' =
     Inr [[1, 0, 0, 1],
          [0, 1, 0, 2],
          [0, 0, 1, 3],
          [0, 0, 0, 1]]"
  by (rule load_transformation_identity
        [where e = "[(''Position'', YSeq [YInt 1, YInt 2, YInt 3]),
                     (''Rotation'', YSeq [YInt 1, YInt 0, YInt 0, YInt 0])]"
           and position_value = "YSeq [YInt 1, YInt 2, YInt 3]"
           and rotation_value = "YSeq [YInt 1, YInt 0, YInt 0, YInt 0]"])
     (simp_all add: transforms_def np_array_1d_def)

text \<open>
  Claim C8. Whenever \<open>load_transformation\<close> returns a matrix, the matrix has four rows of
  four cells; its top-left 3x3 block is the rotation matrix of the swapped and normalised
  quaternion of the entry, its top-right column is the entry's position when that has three
  elements, and its bottom row is \<open>[0, 0, 0, 1]\<close>.
\<close>

theorem load_transformation_shape:
  assumes "load_transformation configs key = Inr M"
  shows "\<exists>position quaternion swapped unit.
           then_do (lookup2 configs key ''Position'') np_array = Inr position \<and>
           then_do (lookup2 configs key ''Rotation'') np_array = Inr quaternion \<and>
           swap_first_last quaternion = Inr swapped \<and>
           from_quat swapped = Inr unit \<and>
           length M = 4 \<and> (\<forall>row \<in> set M. length row = 4) \<and>
           rotation_block M = as_matrix unit \<and>
           (length position = 3 \<longrightarrow> translation_column M = position) \<and>
           bottom_row M = [0, 0, 0, 1]"
proof -
  from assms obtain pv position rv quaternion swapped unit where
    pv: "lookup2 configs key ''Position'' = Inr pv" and p: "np_array pv = Inr position" and
    rv: "lookup2 configs key ''Rotation'' = Inr rv" and q: "np_array rv = Inr quaternion" and
    s: "swap_first_last quaternion = Inr swapped" and u: "from_quat swapped = Inr unit" and
    M: "assign_position (assign_rotation eye4 (as_matrix unit)) position = Inr M"
    unfolding load_transformation_def
    by (auto simp: then_do_eq_Inr split: if_splits)
  from u obtain x y z w where unit: "unit = [x, y, z, w]"
    using from_quat_Inr by blast
  from assemble_Inr [OF M [unfolded unit as_matrix.simps(1)]] pv p rv q s u
  show ?thesis
    by (simp add: then_do_Inr unit)
qed

text \<open>An entry with the position \<open>[4, 5, 6]\<close> and the stored quaternion \<open>[0, 0, 0, 2]\<close>.\<close>

theorem load_transformation_shape_witness:
  "load_transformation
     (YMap [(''T'', YMap [(''Position'', YSeq [YInt 4, YInt 5, YInt 6]),
                          (''Rotation'', YSeq [YInt 0, YInt 0, YInt 0, YInt 2])])]) ''T'' =
     Inr [[1, 0, 0, 4], [0, -1, 0, 5], [0, 0, -1, 6], [0, 0, 0, 1]] \<and>
   (\<exists>position quaternion swapped unit.
      then_do (lookup2 (YMap [(''T'', YMap [(''Position'', YSeq [YInt 4, YInt 5, YInt 6]),
                 (''Rotation'', YSeq [YInt 0, YInt 0, YInt 0, YInt 2])])]) ''T'' ''Position'')
        np_array = Inr position \<and>
      then_do (lookup2 (YMap [(''T'', YMap [(''Position'', YSeq [YInt 4, YInt 5, YInt 6]),
                 (''Rotation'', YSeq [YInt 0, YInt 0, YInt 0, YInt 2])])]) ''T'' ''Rotation'')
        np_array = Inr quaternion \<and>
      swap_first_last quaternion = Inr swapped \<and>
      from_quat swapped = Inr unit \<and>
      length [[1, 0, 0, 4], [0, -1, 0, 5], [0, 0, -1, 6], [0, 0, 0, 1 :: real]] = 4 \<and>
      (\<forall>row \<in> set [[1, 0, 0, 4], [0, -1, 0, 5], [0, 0, -1, 6], [0, 0, 0, 1 :: real]].
         length row = 4) \<and>
      rotation_block [[1, 0, 0, 4], [0, -1, 0, 5], [0, 0, -1, 6], [0, 0, 0, 1]] =
        as_matrix unit \<and>
      (length position = 3 \<longrightarrow>
         translation_column [[1, 0, 0, 4], [0, -1, 0, 5], [0, 0, -1, 6], [0, 0, 0, 1]] =
           position) \<and>
      bottom_row [[1, 0, 0, 4], [0, -1, 0, 5], [0, 0, -1, 6], [0, 0, 0, 1]] = [0, 0, 0, 1])"
proof -
  have returned:
    "load_transformation
       (YMap [(''T'', YMap [(''Position'', YSeq [YInt 4, YInt 5, YInt 6]),
                            (''Rotation'', YSeq [YInt 0, YInt 0, YInt 0, YInt 2])])]) ''T'' =
       Inr [[1, 0, 0, 4], [0, -1, 0, 5], [0, 0, -1, 6], [0, 0, 0, 1]]"
    by (simp add: load_transformation_def lookup2_def then_do_def np_array_1d_def
          swap_first_last_def from_quat_def assign_rotation_eye4 assign_position_three)
  from returned load_transformation_shape [OF returned] show ?thesis
    by (rule conjI)
qed

lemma load_transformation_rotation_built:
  assumes "load_transformation configs key = Inr M"
  shows "\<exists>quaternion.
           then_do (lookup2 configs key ''Rotation'') np_array = Inr quaternion \<and>
           rotation_built quaternion = Inr (rotation_block M)"
proof -
  from assms obtain position rv quaternion swapped unit where
    rv: "lookup2 configs key ''Rotation'' = Inr rv" and q: "np_array rv = Inr quaternion" and
    s: "swap_first_last quaternion = Inr swapped" and u: "from_quat swapped = Inr unit" and
    M: "assign_position (assign_rotation eye4 (as_matrix unit)) position = Inr M"
    unfolding load_transformation_def
    by (auto simp: then_do_eq_Inr split: if_splits)
  from u obtain x y z w where unit: "unit = [x, y, z, w]"
    using from_quat_Inr by blast
  from assemble_Inr [OF M [unfolded unit as_matrix.simps(1)]]
  have "rotation_block M = as_matrix unit"
    by (simp add: unit)
  with rv q s u show ?thesis
    by (simp add: rotation_built_def then_do_Inr)
qed

text \<open>
  Claim C9. The round trip does not give back the original rotation. What
  \<open>load_transformation\<close> builds from the stored \<open>[w, x, y, z]\<close> is the rotation that the
  stored \<open>[w, z, x, y]\<close> stands for: the swap leaves the vector components one place off.
  On the stored half turn about the x axis, \<open>[0, 1, 0, 0]\<close>, the function builds the half
  turn about the y axis; all the numbers are 0, 1 and -1, so no tolerance is involved. The
  two rotations agree when the three vector components are equal.
\<close>

theorem rotation_built_not_original:
  "rotation_built [w, x, y, z] = spec_rotation [w, z, x, y] \<and>
   rotation_built [w, v, v, v] = spec_rotation [w, v, v, v] \<and>
   then_do (load_transformation (YMap transforms) ''T_half_turn_x'')
     (\<lambda>M. Inr (rotation_block M)) = rotation_built [0, 1, 0, 0] \<and>
   rotation_built [0, 1, 0, 0] =
     Inr [[-1, 0, 0],
          [0, 1, 0],
          [0, 0, -1]] \<and>
   spec_rotation [0, 1, 0, 0] =
     Inr [[1, 0, 0],
          [0, -1, 0],
          [0, 0, -1]] \<and>
   rotation_built [0, 1, 0, 0] \<noteq> spec_rotation [0, 1, 0, 0]"
proof -
  have general: "rotation_built [w', x', y', z'] = spec_rotation [w', z', x', y']"
    for w' x' y' z' :: real
    by (simp add: rotation_built_def swap_first_last_def then_do_Inr)
  have built: "rotation_built [0, 1, 0, 0] = Inr [[-1, 0, 0], [0, 1, 0], [0, 0, -1]]"
    by (simp add: rotation_built_def swap_first_last_def from_quat_def then_do_Inr)
  have original: "spec_rotation [0, 1, 0, 0] = Inr [[1, 0, 0], [0, -1, 0], [0, 0, -1]]"
    by (simp add: from_quat_def then_do_Inr)
  have returned:
    "load_transformation (YMap transforms) ''T_half_turn_x'' =
       Inr [[-1, 0, 0, 0], [0, 1, 0, 0], [0, 0, -1, 0], [0, 0, 0, 1]]"
    by (simp add: load_transformation_def transforms_def lookup2_def then_do_def
          np_array_1d_def swap_first_last_def from_quat_def assign_rotation_eye4
          assign_position_three)
  have block:
    "then_do (load_transformation (YMap transforms) ''T_half_turn_x'')
       (\<lambda>M. Inr (rotation_block M)) = rotation_built [0, 1, 0, 0]"
    by (simp add: returned built then_do_Inr rotation_block_def)
  from general [of w x y z] general [of w v v v] block built original show ?thesis
    by simp
qed

end
